theory Spec2Isabelle
  imports Main "HOL-Library.Word"
begin

section \<open>The fluid-state contract of dumux/material/fluidstate.hh\<close>

text \<open>
  The header declares one class template, \<^verbatim>\<open>FluidState<Scalar, Implementation>\<close>:
  a constructor holding a dead block that names three constants of the
  implementation, three anonymous enumerations, nine accessors whose bodies only
  throw, and two protected casts of \<^verbatim>\<open>this\<close> to the implementation.

  The template parameter \<^verbatim>\<open>Scalar\<close> is the type variable \<open>'scalar\<close>; the state of
  one object of the implementing class is a value of the type variable \<open>'impl\<close>;
  a C++ \<^verbatim>\<open>int\<close> is a 32-bit word.
\<close>

subsection \<open>Values, objects and references\<close>

type_synonym cint = "32 word"

text \<open>An exception object: the name of its class and the text given to it.\<close>

datatype exception = Exception (exn_class: string) (exn_what: string)

text \<open>
  Objects live in a store, found by their address. A reference (or the pointer
  \<^verbatim>\<open>this\<close>) designates one object, seen at a static type, with or without
  \<^verbatim>\<open>const\<close>.
\<close>

type_synonym addr = nat

type_synonym 'impl heap = "addr \<rightharpoonup> 'impl"

datatype class_view = FluidState_view | Implementation_view

record reference =
  ref_addr :: addr
  ref_view :: class_view
  ref_const :: bool

definition deref :: "'impl heap \<Rightarrow> reference \<Rightarrow> 'impl option" where
  "deref h r = h (ref_addr r)"

text \<open>Writing through a reference; a \<^verbatim>\<open>const\<close> reference admits no write.\<close>

definition assign_through :: "reference \<Rightarrow> 'impl \<Rightarrow> 'impl heap \<Rightarrow> 'impl heap option" where
  "assign_through r v h = (if ref_const r then None else Some (h(ref_addr r \<mapsto> v)))"

text \<open>
  A member function maps the store before the call to its outcome (an exception
  on the left, the returned value on the right) and the store after the call.
\<close>

type_synonym ('a, 'impl) member_fn = "'impl heap \<Rightarrow> (exception + 'a) \<times> 'impl heap"

definition raised :: "exception + 'a \<Rightarrow> exception option" where
  "raised r = (case r of Inl e \<Rightarrow> Some e | Inr v \<Rightarrow> None)"

definition returned :: "exception + 'a \<Rightarrow> 'a option" where
  "returned r = (case r of Inl e \<Rightarrow> None | Inr v \<Rightarrow> Some v)"

subsection \<open>Throwing\<close>

text \<open>
  Modelled from the spec: the macro \<^verbatim>\<open>DUNE_THROW(E, m)\<close> comes from the header
  \<^verbatim>\<open>dune/common/exceptions.hh\<close> of dune-common, reached through
  \<^verbatim>\<open>dumux/common/exceptions.hh\<close>; neither header is part of the sources at hand.
  The specification describes its use here as raising a dedicated signal that
  carries a text and is not caught by the contract. So \<open>DUNE_THROW E m\<close> raises an
  exception of class \<open>E\<close> carrying the text \<open>m\<close> that the caller supplies, returns
  no value and leaves the store alone. Whatever the macro may add to the text on
  its own (the class name, a source location) is not modelled.
\<close>

definition DUNE_THROW :: "string \<Rightarrow> string \<Rightarrow> ('a, 'impl) member_fn" where
  "DUNE_THROW E m = (\<lambda>h. (Inl (Exception E m), h))"

subsection \<open>The accessors (lines 69 to 140)\<close>

text \<open>
  Each accessor is a \<^verbatim>\<open>const\<close> member function: it receives \<^verbatim>\<open>this\<close> and its
  integer arguments, in the order of the source, and its whole body is one
  \<^verbatim>\<open>DUNE_THROW\<close>. The texts are copied from the source character by character.
\<close>

definition saturation :: "reference \<Rightarrow> cint \<Rightarrow> ('scalar, 'impl) member_fn" where
  "saturation this phaseIdx =
     DUNE_THROW ''Dune::NotImplemented'' ''FluidState::saturation()''"

definition moleFrac :: "reference \<Rightarrow> cint \<Rightarrow> cint \<Rightarrow> ('scalar, 'impl) member_fn" where
  "moleFrac this phaseIdx compIdx =
     DUNE_THROW ''Dune::NotImplemented'' ''FluidState::moleFrac()''"

definition phaseConcentration :: "reference \<Rightarrow> cint \<Rightarrow> ('scalar, 'impl) member_fn" where
  "phaseConcentration this phaseIdx =
     DUNE_THROW ''Dune::NotImplemented'' ''FluidState::phaseConcentration()''"

definition concentration :: "reference \<Rightarrow> cint \<Rightarrow> cint \<Rightarrow> ('scalar, 'impl) member_fn" where
  "concentration this phaseIdx compIdx =
     DUNE_THROW ''Dune::NotImplemented'' ''FluidState::concentration()''"

definition density :: "reference \<Rightarrow> cint \<Rightarrow> ('scalar, 'impl) member_fn" where
  "density this phaseIdx =
     DUNE_THROW ''Dune::NotImplemented'' ''FluidState::density()''"

definition averageMolarMass :: "reference \<Rightarrow> cint \<Rightarrow> ('scalar, 'impl) member_fn" where
  "averageMolarMass this phaseIdx =
     DUNE_THROW ''Dune::NotImplemented'' ''FluidState::averageMolarMass()''"

definition fugacity :: "reference \<Rightarrow> cint \<Rightarrow> ('scalar, 'impl) member_fn" where
  "fugacity this componentIdx =
     DUNE_THROW ''Dune::NotImplemented'' ''FluidState::fugacity()''"

definition phasePressure :: "reference \<Rightarrow> cint \<Rightarrow> ('scalar, 'impl) member_fn" where
  "phasePressure this phaseIdx =
     DUNE_THROW ''Dune::NotImplemented'' ''FluidState::totalPressure()''"

definition temperature :: "reference \<Rightarrow> ('scalar, 'impl) member_fn" where
  "temperature this =
     DUNE_THROW ''Dune::NotImplemented'' ''FluidState::temperature()''"

subsection \<open>The self-reference casts (lines 142 to 146)\<close>

text \<open>
  \<^verbatim>\<open>*((Implementation*) this)\<close>: the cast changes the static type of the pointer
  and the dereference yields a reference to the object it points at. The first
  overload is the one of a receiver that is not \<^verbatim>\<open>const\<close> and gives a reference
  that can be written through; the second is the \<^verbatim>\<open>const\<close> one. A name cannot
  end in an underscore here, so \<^verbatim>\<open>asImp_\<close> is \<open>asImp\<close>, and its \<^verbatim>\<open>const\<close>
  overload is \<open>asImp_const\<close>.
\<close>

definition asImp :: "reference \<Rightarrow> reference" where
  "asImp this =
     \<lparr>ref_addr = ref_addr this, ref_view = Implementation_view, ref_const = False\<rparr>"

definition asImp_const :: "reference \<Rightarrow> reference" where
  "asImp_const this =
     \<lparr>ref_addr = ref_addr this, ref_view = Implementation_view, ref_const = True\<rparr>"

subsection \<open>The declarations of the class (lines 39 to 147)\<close>

text \<open>
  What the class declares, as data: its enumerators with their values, its data
  members, and the signature of each accessor. An anonymous \<^verbatim>\<open>enum { n };\<close>
  gives its only enumerator the value 0.
\<close>

datatype ctype = Scalar_type | Int_type

record method_decl =
  method_name :: string
  method_params :: "(ctype \<times> string) list"
  method_return :: ctype
  method_const :: bool

definition FluidState_enums :: "(string \<times> int) list" where
  "FluidState_enums = [(''numPhases'', 0), (''numComponents'', 0), (''numSolvents'', 0)]"

definition FluidState_fields :: "(ctype \<times> string) list" where
  "FluidState_fields = []"

definition FluidState_accessors :: "method_decl list" where
  "FluidState_accessors =
    [\<lparr>method_name = ''saturation'', method_params = [(Int_type, ''phaseIdx'')],
      method_return = Scalar_type, method_const = True\<rparr>,
     \<lparr>method_name = ''moleFrac'',
      method_params = [(Int_type, ''phaseIdx''), (Int_type, ''compIdx'')],
      method_return = Scalar_type, method_const = True\<rparr>,
     \<lparr>method_name = ''phaseConcentration'', method_params = [(Int_type, ''phaseIdx'')],
      method_return = Scalar_type, method_const = True\<rparr>,
     \<lparr>method_name = ''concentration'',
      method_params = [(Int_type, ''phaseIdx''), (Int_type, ''compIdx'')],
      method_return = Scalar_type, method_const = True\<rparr>,
     \<lparr>method_name = ''density'', method_params = [(Int_type, ''phaseIdx'')],
      method_return = Scalar_type, method_const = True\<rparr>,
     \<lparr>method_name = ''averageMolarMass'', method_params = [(Int_type, ''phaseIdx'')],
      method_return = Scalar_type, method_const = True\<rparr>,
     \<lparr>method_name = ''fugacity'', method_params = [(Int_type, ''componentIdx'')],
      method_return = Scalar_type, method_const = True\<rparr>,
     \<lparr>method_name = ''phasePressure'', method_params = [(Int_type, ''phaseIdx'')],
      method_return = Scalar_type, method_const = True\<rparr>,
     \<lparr>method_name = ''temperature'', method_params = [],
      method_return = Scalar_type, method_const = True\<rparr>]"

text \<open>
  The accessor table of section 4.1 of the specification, in the specification's
  words: the name of each operation and its inputs, in order. Every row returns
  the scalar numeric type.
\<close>

definition spec_accessor_table :: "(string \<times> string list) list" where
  "spec_accessor_table =
    [(''saturation'', [''phaseIdx'']),
     (''moleFrac'', [''phaseIdx'', ''compIdx'']),
     (''phaseConcentration'', [''phaseIdx'']),
     (''concentration'', [''phaseIdx'', ''compIdx'']),
     (''density'', [''phaseIdx'']),
     (''averageMolarMass'', [''phaseIdx'']),
     (''fugacity'', [''componentIdx'']),
     (''phasePressure'', [''phaseIdx'']),
     (''temperature'', [])]"

subsection \<open>Binding an implementation: the names the constructor refers to\<close>

text \<open>
  The implementing class is a template argument, so all that is known of it is
  what it declares. For each member it declares itself: its name, its access
  level, and whether it is a constant that converts to \<^verbatim>\<open>int\<close> (an enumerator
  or a static integral constant, with its value) or something else (a type, a
  function, a data member of an object). Then whether it derives from
  \<^verbatim>\<open>FluidState<Scalar, Implementation>\<close>, as the casts of \<^verbatim>\<open>asImp_\<close> presuppose,
  and with which access; and whether it declares the contract a friend. The
  contract is taken to be its only base class.
\<close>

datatype access = Public | Protected | Private

datatype member = Int_constant int | Not_a_constant

record impl_decl =
  impl_members :: "(string \<times> access \<times> member) list"
  impl_base :: "access option"
  impl_friend :: bool

text \<open>
  The enumerators of lines 57 to 64 follow \<^verbatim>\<open>public:\<close>, so in the contract they
  are public.

  \<^verbatim>\<open>Implementation::n\<close>, written in the constructor of the contract, is looked up
  in the scope of the implementing class. A member that the class declares
  itself hides one of the same name in the base class, whatever its access and
  kind; a name it does not declare is looked up in the base class. What is found
  must then be accessible from the contract: a member of the class itself when
  it is public, a member of the contract when the derivation is public, and
  either when the contract is a friend. And it must convert to \<^verbatim>\<open>int\<close>, for the
  assignment to \<^verbatim>\<open>i\<close>. \<open>None\<close> is an ill-formed reference.
\<close>

definition accessible :: "impl_decl \<Rightarrow> access \<Rightarrow> bool" where
  "accessible I a = (a = Public \<or> impl_friend I)"

definition qualified_lookup :: "impl_decl \<Rightarrow> string \<Rightarrow> int option" where
  "qualified_lookup I n =
     (case map_of (impl_members I) n of
        Some (a, Int_constant v) \<Rightarrow> if accessible I a then Some v else None
      | Some (a, Not_a_constant) \<Rightarrow> None
      | None \<Rightarrow>
         (case impl_base I of
            None \<Rightarrow> None
          | Some a \<Rightarrow> if accessible I a then map_of FluidState_enums n else None))"

text \<open>The values of the three constants, once converted to \<^verbatim>\<open>int\<close>.\<close>

record impl_consts =
  impl_numPhases :: cint
  impl_numComponents :: cint
  impl_numSolvents :: cint

text \<open>
  Instantiating the constructor resolves the three names of lines 49 to 51, in
  that order; \<open>None\<close> is the failure to compile.
\<close>

definition instantiate_ctor :: "impl_decl \<Rightarrow> impl_consts option" where
  "instantiate_ctor I =
     (case qualified_lookup I ''numPhases'' of
        None \<Rightarrow> None
      | Some p \<Rightarrow>
         (case qualified_lookup I ''numComponents'' of
            None \<Rightarrow> None
          | Some c \<Rightarrow>
             (case qualified_lookup I ''numSolvents'' of
                None \<Rightarrow> None
              | Some s \<Rightarrow>
                 Some \<lparr>impl_numPhases = word_of_int p,
                       impl_numComponents = word_of_int c,
                       impl_numSolvents = word_of_int s\<rparr>)))"

subsection \<open>The constructor at run time (lines 43 to 53)\<close>

text \<open>
  The conversion of an \<^verbatim>\<open>int\<close> to the condition of an \<^verbatim>\<open>if\<close>: nonzero is true.
\<close>

definition truth :: "cint \<Rightarrow> bool" where
  "truth c = (c \<noteq> 0)"

text \<open>
  The block assigns to a local variable that nothing reads, so its execution
  could not be seen in the store. To tell whether it runs, the constructor
  returns the assignments it has executed, in order.
\<close>

datatype event = Assign string cint

definition FluidState_ctor :: "impl_consts \<Rightarrow> reference \<Rightarrow> (event list, 'impl) member_fn" where
  "FluidState_ctor I this =
     (\<lambda>h. if truth 0
          then (Inr [Assign ''i'' (impl_numPhases I),
                     Assign ''i'' (impl_numComponents I),
                     Assign ''i'' (impl_numSolvents I)], h)
          else (Inr [], h))"

subsection \<open>Texts that carry a name\<close>

fun starts_with :: "string \<Rightarrow> string \<Rightarrow> bool" where
  "starts_with [] s = True"
| "starts_with (p # ps) [] = False"
| "starts_with (p # ps) (c # cs) = (p = c \<and> starts_with ps cs)"

fun contains :: "string \<Rightarrow> string \<Rightarrow> bool" where
  "contains p [] = (p = [])"
| "contains p (c # cs) = (starts_with p (c # cs) \<or> contains p cs)"

text \<open>An exception carries a name when the name occurs in its text.\<close>

definition carries_name :: "string \<Rightarrow> exception \<Rightarrow> bool" where
  "carries_name n e = contains n (exn_what e)"

section \<open>Properties\<close>

lemmas accessor_defs =
  saturation_def moleFrac_def phaseConcentration_def concentration_def density_def
  averageMolarMass_def fugacity_def phasePressure_def temperature_def

subsection \<open>What a default accessor does\<close>

lemma raised_DUNE_THROW: "raised (fst (DUNE_THROW E m h)) = Some (Exception E m)"
  by (simp add: DUNE_THROW_def raised_def)

lemma returned_DUNE_THROW: "returned (fst (DUNE_THROW E m h)) = None"
  by (simp add: DUNE_THROW_def returned_def)

lemma store_DUNE_THROW: "snd (DUNE_THROW E m h) = h"
  by (simp add: DUNE_THROW_def)

text \<open>
  Claim C1. An implementation that overrides nothing reaches the bodies above.
  Each of the nine accessors, for every receiver, every argument and every
  store, raises an exception of the class \<^verbatim>\<open>Dune::NotImplemented\<close> and returns no
  value.
\<close>

theorem default_accessors_not_implemented:
  "map_option exn_class (raised (fst (saturation this phaseIdx h))) = Some ''Dune::NotImplemented''
   \<and> returned (fst (saturation this phaseIdx h)) = None
   \<and> map_option exn_class (raised (fst (moleFrac this phaseIdx compIdx h))) = Some ''Dune::NotImplemented''
   \<and> returned (fst (moleFrac this phaseIdx compIdx h)) = None
   \<and> map_option exn_class (raised (fst (phaseConcentration this phaseIdx h))) = Some ''Dune::NotImplemented''
   \<and> returned (fst (phaseConcentration this phaseIdx h)) = None
   \<and> map_option exn_class (raised (fst (concentration this phaseIdx compIdx h))) = Some ''Dune::NotImplemented''
   \<and> returned (fst (concentration this phaseIdx compIdx h)) = None
   \<and> map_option exn_class (raised (fst (density this phaseIdx h))) = Some ''Dune::NotImplemented''
   \<and> returned (fst (density this phaseIdx h)) = None
   \<and> map_option exn_class (raised (fst (averageMolarMass this phaseIdx h))) = Some ''Dune::NotImplemented''
   \<and> returned (fst (averageMolarMass this phaseIdx h)) = None
   \<and> map_option exn_class (raised (fst (fugacity this componentIdx h))) = Some ''Dune::NotImplemented''
   \<and> returned (fst (fugacity this componentIdx h)) = None
   \<and> map_option exn_class (raised (fst (phasePressure this phaseIdx h))) = Some ''Dune::NotImplemented''
   \<and> returned (fst (phasePressure this phaseIdx h)) = None
   \<and> map_option exn_class (raised (fst (temperature this h))) = Some ''Dune::NotImplemented''
   \<and> returned (fst (temperature this h)) = None"
  unfolding accessor_defs raised_DUNE_THROW returned_DUNE_THROW by simp

text \<open>
  Claim C5. No default accessor looks at its indices. For each of the eight
  accessors that take an index, two calls that differ only in the phase index or
  the component index, whatever the values (in range or not), have the same
  outcome and leave the same store; at either call the outcome is an exception
  of the class \<^verbatim>\<open>Dune::NotImplemented\<close> and no value; and the exception is never
  one of the class \<^verbatim>\<open>Dune::RangeError\<close>.
\<close>

theorem default_accessors_ignore_indices:
  "saturation this i h = saturation this j h
   \<and> map_option exn_class (raised (fst (saturation this i h))) = Some ''Dune::NotImplemented''
   \<and> map_option exn_class (raised (fst (saturation this j h))) = Some ''Dune::NotImplemented''
   \<and> returned (fst (saturation this i h)) = None
   \<and> map_option exn_class (raised (fst (saturation this i h))) \<noteq> Some ''Dune::RangeError''
   \<and> moleFrac this i c h = moleFrac this j d h
   \<and> map_option exn_class (raised (fst (moleFrac this i c h))) = Some ''Dune::NotImplemented''
   \<and> map_option exn_class (raised (fst (moleFrac this j d h))) = Some ''Dune::NotImplemented''
   \<and> returned (fst (moleFrac this i c h)) = None
   \<and> map_option exn_class (raised (fst (moleFrac this i c h))) \<noteq> Some ''Dune::RangeError''
   \<and> phaseConcentration this i h = phaseConcentration this j h
   \<and> map_option exn_class (raised (fst (phaseConcentration this i h))) = Some ''Dune::NotImplemented''
   \<and> map_option exn_class (raised (fst (phaseConcentration this j h))) = Some ''Dune::NotImplemented''
   \<and> returned (fst (phaseConcentration this i h)) = None
   \<and> map_option exn_class (raised (fst (phaseConcentration this i h))) \<noteq> Some ''Dune::RangeError''
   \<and> concentration this i c h = concentration this j d h
   \<and> map_option exn_class (raised (fst (concentration this i c h))) = Some ''Dune::NotImplemented''
   \<and> map_option exn_class (raised (fst (concentration this j d h))) = Some ''Dune::NotImplemented''
   \<and> returned (fst (concentration this i c h)) = None
   \<and> map_option exn_class (raised (fst (concentration this i c h))) \<noteq> Some ''Dune::RangeError''
   \<and> density this i h = density this j h
   \<and> map_option exn_class (raised (fst (density this i h))) = Some ''Dune::NotImplemented''
   \<and> map_option exn_class (raised (fst (density this j h))) = Some ''Dune::NotImplemented''
   \<and> returned (fst (density this i h)) = None
   \<and> map_option exn_class (raised (fst (density this i h))) \<noteq> Some ''Dune::RangeError''
   \<and> averageMolarMass this i h = averageMolarMass this j h
   \<and> map_option exn_class (raised (fst (averageMolarMass this i h))) = Some ''Dune::NotImplemented''
   \<and> map_option exn_class (raised (fst (averageMolarMass this j h))) = Some ''Dune::NotImplemented''
   \<and> returned (fst (averageMolarMass this i h)) = None
   \<and> map_option exn_class (raised (fst (averageMolarMass this i h))) \<noteq> Some ''Dune::RangeError''
   \<and> fugacity this c h = fugacity this d h
   \<and> map_option exn_class (raised (fst (fugacity this c h))) = Some ''Dune::NotImplemented''
   \<and> map_option exn_class (raised (fst (fugacity this d h))) = Some ''Dune::NotImplemented''
   \<and> returned (fst (fugacity this c h)) = None
   \<and> map_option exn_class (raised (fst (fugacity this c h))) \<noteq> Some ''Dune::RangeError''
   \<and> phasePressure this i h = phasePressure this j h
   \<and> map_option exn_class (raised (fst (phasePressure this i h))) = Some ''Dune::NotImplemented''
   \<and> map_option exn_class (raised (fst (phasePressure this j h))) = Some ''Dune::NotImplemented''
   \<and> returned (fst (phasePressure this i h)) = None
   \<and> map_option exn_class (raised (fst (phasePressure this i h))) \<noteq> Some ''Dune::RangeError''"
  unfolding accessor_defs raised_DUNE_THROW returned_DUNE_THROW
  by (simp add: DUNE_THROW_def)

text \<open>
  Claim C6. The class declares no data member, and every accessor, on every
  input, hands back the store it was given: no object is changed, the receiver
  included.
\<close>

theorem contract_stateless_read_only:
  "FluidState_fields = []
   \<and> snd (saturation this phaseIdx h) = h
   \<and> snd (moleFrac this phaseIdx compIdx h) = h
   \<and> snd (phaseConcentration this phaseIdx h) = h
   \<and> snd (concentration this phaseIdx compIdx h) = h
   \<and> snd (density this phaseIdx h) = h
   \<and> snd (averageMolarMass this phaseIdx h) = h
   \<and> snd (fugacity this componentIdx h) = h
   \<and> snd (phasePressure this phaseIdx h) = h
   \<and> snd (temperature this h) = h"
  unfolding accessor_defs store_DUNE_THROW by (simp add: FluidState_fields_def)

text \<open>
  Claim C10. Every operation ends on every input with a definite outcome: each of
  the nine accessors with an exception, the constructor with a normal return,
  each cast with a reference. None of the bodies loops or recurses, and the
  definitions above are not recursive.
\<close>

theorem operations_total:
  "(\<exists>e. saturation this phaseIdx h = (Inl e, h))
   \<and> (\<exists>e. moleFrac this phaseIdx compIdx h = (Inl e, h))
   \<and> (\<exists>e. phaseConcentration this phaseIdx h = (Inl e, h))
   \<and> (\<exists>e. concentration this phaseIdx compIdx h = (Inl e, h))
   \<and> (\<exists>e. density this phaseIdx h = (Inl e, h))
   \<and> (\<exists>e. averageMolarMass this phaseIdx h = (Inl e, h))
   \<and> (\<exists>e. fugacity this componentIdx h = (Inl e, h))
   \<and> (\<exists>e. phasePressure this phaseIdx h = (Inl e, h))
   \<and> (\<exists>e. temperature this h = (Inl e, h))
   \<and> (\<exists>tr. FluidState_ctor I this h = (Inr tr, h))
   \<and> (\<exists>a. asImp this = \<lparr>ref_addr = a, ref_view = Implementation_view, ref_const = False\<rparr>)
   \<and> (\<exists>a. asImp_const this = \<lparr>ref_addr = a, ref_view = Implementation_view, ref_const = True\<rparr>)"
  unfolding accessor_defs
  by (simp add: DUNE_THROW_def FluidState_ctor_def truth_def asImp_def asImp_const_def)

subsection \<open>The text of the exceptions\<close>

lemma accessors_carry_own_name:
  "map_option (carries_name ''saturation'') (raised (fst (saturation this phaseIdx h))) = Some True
   \<and> map_option (carries_name ''moleFrac'') (raised (fst (moleFrac this phaseIdx compIdx h))) = Some True
   \<and> map_option (carries_name ''phaseConcentration'') (raised (fst (phaseConcentration this phaseIdx h))) = Some True
   \<and> map_option (carries_name ''concentration'') (raised (fst (concentration this phaseIdx compIdx h))) = Some True
   \<and> map_option (carries_name ''density'') (raised (fst (density this phaseIdx h))) = Some True
   \<and> map_option (carries_name ''averageMolarMass'') (raised (fst (averageMolarMass this phaseIdx h))) = Some True
   \<and> map_option (carries_name ''fugacity'') (raised (fst (fugacity this componentIdx h))) = Some True
   \<and> map_option (carries_name ''temperature'') (raised (fst (temperature this h))) = Some True"
  unfolding accessor_defs raised_DUNE_THROW by (simp add: carries_name_def)

text \<open>
  Claim C3. The eight accessors of \<open>accessors_carry_own_name\<close> raise a text
  that names them. The text that \<^verbatim>\<open>phasePressure\<close> raises is
  \<^verbatim>\<open>FluidState::totalPressure()\<close>: it names an operation that the class does not
  have, and the name \<^verbatim>\<open>phasePressure\<close> does not occur in it.
\<close>

theorem phasePressure_text_names_totalPressure:
  "raised (fst (phasePressure this phaseIdx h)) =
     Some (Exception ''Dune::NotImplemented'' ''FluidState::totalPressure()'')
   \<and> map_option (carries_name ''phasePressure'') (raised (fst (phasePressure this phaseIdx h)))
       = Some False
   \<and> map_option (carries_name ''totalPressure'') (raised (fst (phasePressure this phaseIdx h)))
       = Some True"
  unfolding phasePressure_def raised_DUNE_THROW by (simp add: carries_name_def)

subsection \<open>The constructor\<close>

text \<open>
  Claim C4. The condition of the \<^verbatim>\<open>if\<close> is the literal 0, which is false. So for
  every implementation, every receiver and every store, the constructor executes
  none of the three assignments, returns normally and leaves the store as it
  was.
\<close>

theorem ctor_check_has_no_runtime_effect:
  "\<not> truth 0
   \<and> FluidState_ctor I this h = (Inr [], h)
   \<and> raised (fst (FluidState_ctor I this h)) = None"
  by (simp add: FluidState_ctor_def truth_def raised_def)

subsection \<open>The casts\<close>

text \<open>
  Claim C7. Both casts return a reference to the object of the receiver, seen as
  the implementing class: the address is the receiver's, reading through the
  result reads the receiver's object, and a write through the result of the
  mutable variant is what the receiver then reads. The result of the \<^verbatim>\<open>const\<close>
  variant admits no write.
\<close>

theorem asImp_aliases_receiver:
  "ref_addr (asImp this) = ref_addr this
   \<and> ref_view (asImp this) = Implementation_view
   \<and> ref_addr (asImp_const this) = ref_addr this
   \<and> ref_view (asImp_const this) = Implementation_view
   \<and> deref h (asImp this) = deref h this
   \<and> deref h (asImp_const this) = deref h this
   \<and> map_option (\<lambda>h'. deref h' this) (assign_through (asImp this) v h) = Some (Some v)
   \<and> assign_through (asImp_const this) v h = None"
  by (simp add: asImp_def asImp_const_def deref_def assign_through_def)

subsection \<open>The declared surface\<close>

text \<open>
  Claim C8. The accessors the class declares are those of the table of the
  specification, row by row: the same names, in the same order, with the same
  inputs in the same order (for \<^verbatim>\<open>moleFrac\<close> and \<^verbatim>\<open>concentration\<close> the phase
  index, then the component index; for \<^verbatim>\<open>temperature\<close> none). Every one returns
  \<^verbatim>\<open>Scalar\<close>, and every input is an \<^verbatim>\<open>int\<close>.
\<close>

theorem accessor_signatures_match_spec_table:
  "map (\<lambda>m. (method_name m, map snd (method_params m))) FluidState_accessors
     = spec_accessor_table
   \<and> set (map method_return FluidState_accessors) = {Scalar_type}
   \<and> set (concat (map (\<lambda>m. map fst (method_params m)) FluidState_accessors)) = {Int_type}"
  by (simp add: FluidState_accessors_def spec_accessor_table_def)

subsection \<open>The three constants\<close>


lemma public_derivation_inherits:
  assumes "impl_base I = Some Public" and "map_of (impl_members I) n = None"
  shows "qualified_lookup I n = map_of FluidState_enums n"
  using assms by (simp add: qualified_lookup_def accessible_def)

lemma public_derivation_without_constants_instantiates:
  assumes base: "impl_base I = Some Public"
    and p: "map_of (impl_members I) ''numPhases'' = None"
    and c: "map_of (impl_members I) ''numComponents'' = None"
    and s: "map_of (impl_members I) ''numSolvents'' = None"
  shows "instantiate_ctor I
     = Some \<lparr>impl_numPhases = 0, impl_numComponents = 0, impl_numSolvents = 0\<rparr>"
proof -
  have "qualified_lookup I ''numPhases'' = Some 0"
    using public_derivation_inherits [OF base p] by (simp add: FluidState_enums_def)
  moreover have "qualified_lookup I ''numComponents'' = Some 0"
    using public_derivation_inherits [OF base c] by (simp add: FluidState_enums_def)
  moreover have "qualified_lookup I ''numSolvents'' = Some 0"
    using public_derivation_inherits [OF base s] by (simp add: FluidState_enums_def)
  ultimately show ?thesis
    by (simp add: instantiate_ctor_def)
qed

lemma unrelated_class_must_declare:
  assumes "impl_base I = None"
    and "n \<in> {''numPhases'', ''numComponents'', ''numSolvents''}"
    and "map_of (impl_members I) n = None"
  shows "instantiate_ctor I = None"
  using assms by (auto simp: instantiate_ctor_def qualified_lookup_def split: option.splits)

lemma private_derivation_is_rejected:
  "instantiate_ctor \<lparr>impl_members = [], impl_base = Some Private, impl_friend = False\<rparr> = None"
  by (simp add: instantiate_ctor_def qualified_lookup_def accessible_def)

lemma private_constant_is_rejected:
  "instantiate_ctor
     \<lparr>impl_members = [(''numPhases'', Private, Int_constant 2)],
      impl_base = Some Public, impl_friend = False\<rparr> = None"
  by (simp add: instantiate_ctor_def qualified_lookup_def accessible_def)

text \<open>
  Claim C2. The check of the constructor does reject a class that is unrelated to
  the contract and lacks a constant (\<open>unrelated_class_must_declare\<close>). It does
  not reject a class that derives publicly from the contract and declares none
  of the three names (\<open>public_derivation_without_constants_instantiates\<close>): the
  stub that derives publicly from it and declares nothing instantiates the
  constructor, the three names resolving to the enumerators of the contract.
\<close>

theorem derived_stub_without_constants_compiles:
  "instantiate_ctor \<lparr>impl_members = [], impl_base = Some Public, impl_friend = False\<rparr>
     = Some \<lparr>impl_numPhases = 0, impl_numComponents = 0, impl_numSolvents = 0\<rparr>"
  by (simp add: instantiate_ctor_def qualified_lookup_def accessible_def FluidState_enums_def)

end
